theory Spec2Isabelle
  imports Main "HOL-Library.Word"
begin

section \<open>The ClusterWorkspaceShard controller and the heartbeat options\<close>

text \<open>
  A shallow embedding of package \<open>clusterworkspaceshard\<close> (the controller: \<open>enqueue\<close>,
  \<open>Start\<close>, \<open>processNextWorkItem\<close>, \<open>process\<close>, \<open>reconcile\<close>) and of
  \<open>heartbeat.Options.Validate\<close>.

  The controller talks to four collaborators: the work queue, the error sink
  (\<open>runtime.HandleError\<close>), the lister of the informer cache and the kcp client. Calls that
  change something outside the controller (queue operations, reported errors, patches sent)
  are recorded, in program order, in a trace of events. Calls that answer (the lister's
  \<open>Get\<close>, the client's \<open>Patch\<close>, the key function, the queue's \<open>Get\<close>) take their
  answer from a parameter. Go pointers to ClusterWorkspaceShard objects are addresses into
  an explicit heap, so that \<open>previous := obj\<close> aliases and \<open>obj.DeepCopy()\<close> does not.
  Logging does not affect control flow and is left out.
\<close>

subsection \<open>Errors\<close>

datatype reason = ReasonNotFound | ReasonConflict | ReasonOther string

text \<open>
  A Go \<open>error\<close> value: an API status error with its reason, or an error made by
  \<open>fmt.Errorf\<close> / \<open>errors.New\<close> from a format string, wrapping (\<open>%w\<close>) another error or
  none. The formatted arguments are not part of the model.
\<close>

datatype error = StatusError reason | Errorf string "error option"

text \<open>\<open>kerrors.IsNotFound\<close>: the reason of the status error found by unwrapping.\<close>

fun IsNotFound :: "error \<Rightarrow> bool" where
  "IsNotFound (StatusError r) = (r = ReasonNotFound)"
| "IsNotFound (Errorf _ None) = False"
| "IsNotFound (Errorf _ (Some e)) = IsNotFound e"

subsection \<open>JSON documents and the merge patch\<close>

text \<open>
  JSON values as \<open>encoding/json\<close> decodes them into \<open>interface{}\<close>. An object is kept as
  the list of its members; it is read through \<open>map_of\<close>, as the Go map it decodes to.
\<close>

datatype json =
    JNull
  | JBool bool
  | JNumber int
  | JString string
  | JArray "json list"
  | JObject "(string \<times> json) list"

lemma size_member_lt:
  "(k, bv) \<in> set bt \<Longrightarrow> size bv < Suc (size_list (size_prod (\<lambda>_. 0) size) bt)"
  by (induction bt) auto

lemma size_elem_lt:
  "bv \<in> set bt \<Longrightarrow> size bv < Suc (size_list size bt)"
  by (induction bt) auto

text \<open>
  Modelled from the spec: \<open>jsonpatch.CreateMergePatch\<close> (github.com/evanphx/json-patch) is
  a library the controller calls; its code is not among the sources. The spec describes the
  patch as "a minimal description of the fields that differ" between the two documents,
  submitted through "a generic merge-patch mechanism". The definitions \<open>matchesValue\<close>,
  \<open>getDiff\<close> and \<open>CreateMergePatch\<close> follow the library's functions of the same names:
  a member of the new document is put into the patch when the old document lacks it, when
  its JSON type changed, or when its value differs (objects are compared recursively and
  contribute only a non-empty difference); a member only the old document has is set to
  null; a member that is equal in both documents is left out.
\<close>

function (sequential) matchesValue :: "json \<Rightarrow> json \<Rightarrow> bool" where
  "matchesValue (JString at) (JString bt) = (bt = at)"
| "matchesValue (JNumber at) (JNumber bt) = (bt = at)"
| "matchesValue (JBool at) (JBool bt) = (bt = at)"
| "matchesValue JNull JNull = True"
| "matchesValue (JObject at) (JObject bt) =
     (length bt = length at \<and>
      (\<forall>(k, bv) \<in> set bt.
         (case map_of at k of
            None \<Rightarrow> False
          | Some av \<Rightarrow> matchesValue av bv)))"
| "matchesValue (JArray at) (JArray bt) =
     (length at = length bt \<and>
      (\<forall>(av, bv) \<in> set (zip at bt). matchesValue av bv))"
| "matchesValue av bv = False"
  by pat_completeness auto
termination
  by (relation "measure (\<lambda>(av, bv). size bv)")
     (auto simp: size_member_lt size_elem_lt dest: set_zip_rightD)

function (sequential)
  getDiff :: "(string \<times> json) list \<Rightarrow> (string \<times> json) list \<Rightarrow> (string \<times> json) list" and
  added :: "(string \<times> json) list \<Rightarrow> (string \<times> json) list \<Rightarrow> (string \<times> json) list"
where
  "getDiff a b =
     added a b @
     map (\<lambda>(k, _). (k, JNull)) (filter (\<lambda>(k, _). map_of b k = None) a)"
| "added a [] = []"
| "added a ((k, bv) # b) =
     (case map_of a k of
        None \<Rightarrow> (k, bv) # added a b
      | Some av \<Rightarrow>
          (case (av, bv) of
             (JObject at, JObject bt) \<Rightarrow>
               (let dst = getDiff at bt
                in if length dst > 0 then (k, JObject dst) # added a b else added a b)
           | (JString _, JString _) \<Rightarrow>
               if \<not> matchesValue av bv then (k, bv) # added a b else added a b
           | (JNumber _, JNumber _) \<Rightarrow>
               if \<not> matchesValue av bv then (k, bv) # added a b else added a b
           | (JBool _, JBool _) \<Rightarrow>
               if \<not> matchesValue av bv then (k, bv) # added a b else added a b
           | (JArray _, JArray _) \<Rightarrow>
               if \<not> matchesValue av bv then (k, bv) # added a b else added a b
           | (JNull, JNull) \<Rightarrow> added a b
           | _ \<Rightarrow> (k, bv) # added a b))"
  by pat_completeness auto
termination
  by (relation "measure (\<lambda>x. case x of
          Inl (a, b) \<Rightarrow> 2 * size_list (size_prod (\<lambda>_. 0) size) b + 1
        | Inr (a, b) \<Rightarrow> 2 * size_list (size_prod (\<lambda>_. 0) size) b)")
     auto

text \<open>
  \<open>CreateMergePatch\<close> on two documents. Both documents the controller passes are what
  \<open>json.Marshal\<close> made of a struct, that is, objects; any other pair is answered with the
  library's bad-document error.
\<close>

definition CreateMergePatch :: "json \<Rightarrow> json \<Rightarrow> error + json" where
  "CreateMergePatch originalJSON modifiedJSON =
     (case (originalJSON, modifiedJSON) of
        (JObject a, JObject b) \<Rightarrow> Inr (JObject (getDiff a b))
      | _ \<Rightarrow> Inl (Errorf ''Invalid JSON Document'' None))"

text \<open>A member of a document, by its path from the root.\<close>

fun member :: "string list \<Rightarrow> json \<Rightarrow> json option" where
  "member [] j = Some j"
| "member (k # ks) (JObject ms) =
     (case map_of ms k of None \<Rightarrow> None | Some j \<Rightarrow> member ks j)"
| "member (k # ks) _ = None"

subsection \<open>The API object\<close>

text \<open>
  The fields of \<open>tenancyv1alpha1.ClusterWorkspaceShard\<close> the controller reads or writes.
  \<open>Labels\<close> is a Go map: \<open>None\<close> is the nil map, \<open>Some m\<close> an allocated one, kept as the
  list of its entries and read through \<open>map_of\<close>. The declaration of the status struct is
  not among the sources, so its type is the parameter \<open>'st\<close>;
  \<open>equality.Semantic.DeepEqual\<close> on two statuses is equality of their values.
\<close>

record 'st ClusterWorkspaceShard =
  Name :: string
  UID :: string
  ResourceVersion :: string
  Labels :: "(string \<times> string) list option"
  Status :: 'st

text \<open>
  What the controller uses of package \<open>tenancyv1alpha1\<close> and is declared outside the
  sources: the name of the root logical cluster, the zero value of the status struct, and
  the JSON encodings of a status and of the zero spec.
\<close>

record 'st tenancyv1alpha1 =
  RootCluster :: string
  zeroStatus :: 'st
  marshalStatus :: "'st \<Rightarrow> json"
  marshalZeroSpec :: json

definition MergePatchType :: string where
  "MergePatchType = ''application/merge-patch+json''"

definition shardLabel :: string where
  "shardLabel = ''tenancy.kcp.dev/shard''"

text \<open>\<open>m[k] = v\<close> on a Go map.\<close>

fun mapStore :: "string \<Rightarrow> string \<Rightarrow> (string \<times> string) list \<Rightarrow> (string \<times> string) list" where
  "mapStore k v [] = [(k, v)]"
| "mapStore k v ((k', v') # m) =
     (if k' = k then (k, v) # m else (k', v') # mapStore k v m)"

definition entries :: "(string \<times> string) list option \<Rightarrow> (string \<times> string) list" where
  "entries l = (case l of None \<Rightarrow> [] | Some m \<Rightarrow> m)"

text \<open>
  \<open>equality.Semantic.DeepEqual\<close> on two label maps: the same keys with the same values;
  a nil map and an empty map are equal.
\<close>

definition DeepEqualLabels ::
  "(string \<times> string) list option \<Rightarrow> (string \<times> string) list option \<Rightarrow> bool" where
  "DeepEqualLabels x y =
     list_all (\<lambda>k. map_of (entries x) k = map_of (entries y) k)
       (map fst (entries x) @ map fst (entries y))"

text \<open>
  \<open>json.Marshal\<close> of a ClusterWorkspaceShard value. String fields and the label map carry
  \<open>omitempty\<close> and are left out when empty; the creation timestamp (a struct) is encoded
  as null when zero; spec and status are structs and always encoded. The controller only
  marshals struct literals that leave the type meta empty (left out as well) and the spec
  at its zero value. Encoding strings, string
  maps and API structs cannot fail, so the result is always \<open>Inr\<close>; the type keeps the
  error the Go function can return.
\<close>

definition omitempty :: "string \<Rightarrow> string \<Rightarrow> (string \<times> json) list" where
  "omitempty field v = (if v = [] then [] else [(field, JString v)])"

definition objectMeta :: "'st ClusterWorkspaceShard \<Rightarrow> (string \<times> json) list" where
  "objectMeta s =
     omitempty ''name'' (Name s) @
     omitempty ''uid'' (UID s) @
     omitempty ''resourceVersion'' (ResourceVersion s) @
     [(''creationTimestamp'', JNull)] @
     (if entries (Labels s) = [] then []
      else [(''labels'', JObject (map (\<lambda>(k, v). (k, JString v)) (entries (Labels s))))])"

definition members :: "'st tenancyv1alpha1 \<Rightarrow> 'st ClusterWorkspaceShard \<Rightarrow> (string \<times> json) list" where
  "members tn s =
     [(''metadata'', JObject (objectMeta s)),
      (''spec'', marshalZeroSpec tn),
      (''status'', marshalStatus tn (Status s))]"

definition Marshal :: "'st tenancyv1alpha1 \<Rightarrow> 'st ClusterWorkspaceShard \<Rightarrow> error + json" where
  "Marshal tn s = Inr (JObject (members tn s))"

subsection \<open>The world: heap and trace\<close>

datatype event =
    QueueAdd string
  | QueueAddRateLimited string
  | QueueForget string
  | QueueDone string
  | QueueShutDown
  | HandleError error
  | ClientPatch string string string json "string list"
  | GoWorker

text \<open>
  \<open>ClientPatch cluster name patchType patchBytes subresources\<close> is one call of the client's
  \<open>Patch\<close>; \<open>GoWorker\<close> is one \<open>go wait.Until(startWorker ...)\<close>.
\<close>

record 'st world =
  heap :: "'st ClusterWorkspaceShard list"
  trace :: "event list"

definition emit :: "event list \<Rightarrow> 'st world \<Rightarrow> 'st world" where
  "emit es w = w\<lparr>trace := trace w @ es\<rparr>"

text \<open>
  The Controller struct: the client answers a \<open>Patch\<close> call with an error or nil, the
  lister answers \<open>Get(key)\<close> with an error or a pointer into the heap. A pointer \<open>p\<close>
  the lister returns refers to an object of the cache: \<open>p < length (heap w)\<close>. The queue
  is the trace.
\<close>

record Controller =
  kcpClient :: "string \<Rightarrow> string \<Rightarrow> string \<Rightarrow> json \<Rightarrow> string list \<Rightarrow> error option"
  clusterWorkspaceShardLister :: "string \<Rightarrow> error + nat"

definition ControllerName :: string where
  "ControllerName = ''kcp-clusterworkspaceshard''"

subsection \<open>Keys\<close>

text \<open>\<open>strings.Split(s, sep)\<close> for a separator of one character.\<close>

fun Split :: "string \<Rightarrow> char \<Rightarrow> string list" where
  "Split [] sep = [[]]"
| "Split (c # s) sep =
     (if c = sep then [] # Split s sep
      else (case Split s sep of
              [] \<Rightarrow> [[c]]
            | p # ps \<Rightarrow> (c # p) # ps))"

text \<open>\<open>cache.SplitMetaNamespaceKey\<close> of client-go: one part is a name, two parts are
  namespace and name, anything else is an error.\<close>

definition SplitMetaNamespaceKey :: "string \<Rightarrow> error + (string \<times> string)" where
  "SplitMetaNamespaceKey k =
     (case Split k (CHR ''/'') of
        [n] \<Rightarrow> Inr ([], n)
      | [ns, n] \<Rightarrow> Inr (ns, n)
      | _ \<Rightarrow> Inl (Errorf ''unexpected key format: %q'' None))"

text \<open>
  \<open>enqueue\<close>. The key function \<open>kcpcache.MetaClusterNamespaceKeyFunc\<close> is a parameter:
  it answers with a key or an error.
\<close>

definition enqueue :: "('o \<Rightarrow> error + string) \<Rightarrow> 'o \<Rightarrow> 'st world \<Rightarrow> 'st world" where
  "enqueue MetaClusterNamespaceKeyFunc obj w =
     (case MetaClusterNamespaceKeyFunc obj of
        Inl err \<Rightarrow> emit [HandleError err] w
      | Inr k \<Rightarrow> emit [QueueAdd k] w)"

subsection \<open>reconcile and process\<close>

text \<open>
  \<open>obj.DeepCopy()\<close>: a new object with the same contents, at a fresh address. The copy
  is deep: the label map is copied with the struct, so the copy shares nothing with the
  original.
\<close>

definition DeepCopy :: "nat \<Rightarrow> 'st world \<Rightarrow> nat \<times> 'st world" where
  "DeepCopy p w = (length (heap w), w\<lparr>heap := heap w @ [heap w ! p]\<rparr>)"

text \<open>What \<open>reconcile\<close> does to the struct its pointer refers to.\<close>

definition stamp :: "'st ClusterWorkspaceShard \<Rightarrow> 'st ClusterWorkspaceShard" where
  "stamp ws =
     (let ws1 = (if Labels ws = None then ws\<lparr>Labels := Some []\<rparr> else ws)
      in ws1\<lparr>Labels := Some (mapStore shardLabel (Name ws1) (entries (Labels ws1)))\<rparr>)"

definition reconcile :: "nat \<Rightarrow> 'st world \<Rightarrow> error option \<times> 'st world" where
  "reconcile workspaceShard w =
     (None, w\<lparr>heap := (heap w)[workspaceShard := stamp (heap w ! workspaceShard)]\<rparr>)"

text \<open>
  The second half of \<open>process\<close>, from the comparison of the status on: compare
  \<open>previous\<close> and \<open>obj\<close> group by group and patch the first group that differs.
\<close>

definition commit ::
  "Controller \<Rightarrow> 'st tenancyv1alpha1 \<Rightarrow> nat \<Rightarrow> nat \<Rightarrow> 'st world \<Rightarrow>
   (bool \<times> error option) \<times> 'st world" where
  "commit c tn previous obj w =
     (let prev = heap w ! previous; cur = heap w ! obj in
      if \<not> (Status prev = Status cur) then
        (case Marshal tn \<lparr>Name = [], UID = UID prev, ResourceVersion = ResourceVersion prev,
                          Labels = None, Status = Status prev\<rparr> of
           Inl err \<Rightarrow> ((True, Some (Errorf ''failed to Marshal old data for workspace shard %s|%s/%s: %w'' (Some err))), w)
         | Inr oldData \<Rightarrow>
        (case Marshal tn \<lparr>Name = [], UID = UID prev, ResourceVersion = ResourceVersion prev,
                          Labels = None, Status = Status cur\<rparr> of
           Inl err \<Rightarrow> ((True, Some (Errorf ''failed to Marshal new data for workspace shard %s|%s/%s: %w'' (Some err))), w)
         | Inr newData \<Rightarrow>
        (case CreateMergePatch oldData newData of
           Inl err \<Rightarrow> ((True, Some (Errorf ''failed to create patch for workspace shard %s|%s/%s: %w'' (Some err))), w)
         | Inr patchBytes \<Rightarrow>
            (let w' = emit [ClientPatch (RootCluster tn) (Name cur) MergePatchType patchBytes [''status'']] w
             in case kcpClient c (RootCluster tn) (Name cur) MergePatchType patchBytes [''status''] of
                  Some uerr \<Rightarrow> ((True, Some uerr), w')
                | None \<Rightarrow> ((True, None), w')))))
      else if Labels prev = None \<or> \<not> DeepEqualLabels (Labels prev) (Labels cur) then
        (case Marshal tn \<lparr>Name = [], UID = UID prev, ResourceVersion = ResourceVersion prev,
                          Labels = Labels prev, Status = zeroStatus tn\<rparr> of
           Inl err \<Rightarrow> ((True, Some (Errorf ''failed to Marshal old data for workspace shard %s|%s/%s: %w'' (Some err))), w)
         | Inr oldData \<Rightarrow>
        (case Marshal tn \<lparr>Name = [], UID = UID prev, ResourceVersion = ResourceVersion prev,
                          Labels = Labels cur, Status = zeroStatus tn\<rparr> of
           Inl err \<Rightarrow> ((True, Some (Errorf ''failed to Marshal new data for workspace shard %s|%s/%s: %w'' (Some err))), w)
         | Inr newData \<Rightarrow>
        (case CreateMergePatch oldData newData of
           Inl err \<Rightarrow> ((True, Some (Errorf ''failed to create patch for workspace shard %s|%s/%s: %w'' (Some err))), w)
         | Inr patchBytes \<Rightarrow>
            (let w' = emit [ClientPatch (RootCluster tn) (Name cur) MergePatchType patchBytes []] w
             in case kcpClient c (RootCluster tn) (Name cur) MergePatchType patchBytes [] of
                  Some uerr \<Rightarrow> ((True, Some uerr), w')
                | None \<Rightarrow> ((True, None), w')))))
      else ((False, None), w))"

text \<open>\<open>process\<close>: the first half, up to the call of \<open>reconcile\<close>, then \<open>commit\<close>.\<close>

definition process ::
  "Controller \<Rightarrow> 'st tenancyv1alpha1 \<Rightarrow> string \<Rightarrow> 'st world \<Rightarrow>
   (bool \<times> error option) \<times> 'st world" where
  "process c tn k w =
     (case SplitMetaNamespaceKey k of
        Inl err \<Rightarrow> ((False, None), w)
      | Inr (namespace, n) \<Rightarrow>
          if namespace \<noteq> [] then ((False, None), w)
          else
            (case clusterWorkspaceShardLister c k of
               Inl err \<Rightarrow>
                 if IsNotFound err then ((False, None), w)
                 else ((True, Some err), w)
             | Inr previous \<Rightarrow>
                 (let (obj, w1) = DeepCopy previous w;
                      (rerr, w2) = reconcile obj w1
                  in case rerr of
                       Some err \<Rightarrow> ((True, Some err), w2)
                     | None \<Rightarrow> commit c tn previous obj w2)))"

subsection \<open>The worker\<close>

text \<open>
  \<open>processNextWorkItem\<close>. The pair \<open>(k, quit)\<close> is what \<open>c.queue.Get()\<close> returned. The
  deferred \<open>c.queue.Done(key)\<close> runs last on every path after the defer statement.
\<close>

definition processNextWorkItem ::
  "Controller \<Rightarrow> 'st tenancyv1alpha1 \<Rightarrow> string \<times> bool \<Rightarrow> 'st world \<Rightarrow> bool \<times> 'st world" where
  "processNextWorkItem c tn got w =
     (let (k, quit) = got in
      if quit then (False, w)
      else
        (let ((requeue, err), w1) = process c tn k w in
         case err of
           Some e \<Rightarrow>
             (True, emit [HandleError (Errorf ''%q controller failed to sync %q, err: %w'' (Some e)),
                          QueueAddRateLimited k, QueueDone k] w1)
         | None \<Rightarrow>
             (let w2 = (if requeue then emit [QueueAdd k] w1 else w1)
              in (True, emit [QueueForget k, QueueDone k] w2))))"

text \<open>
  \<open>Start\<close>: the loop \<open>for i := 0; i < numThreads; i++\<close> starts one worker per round;
  then \<open>Start\<close> waits for the context and, deferred, shuts the queue down. The world
  returned is the one at the time \<open>Start\<close> returns, the context being done.
\<close>

function spawn :: "int \<Rightarrow> int \<Rightarrow> event list" where
  "spawn i numThreads = (if i < numThreads then GoWorker # spawn (i + 1) numThreads else [])"
  by pat_completeness auto
termination
  by (relation "measure (\<lambda>(i, numThreads). nat (numThreads - i))") auto

declare spawn.simps [simp del]

definition Start :: "Controller \<Rightarrow> int \<Rightarrow> 'st world \<Rightarrow> 'st world" where
  "Start c numThreads w = emit (spawn 0 numThreads @ [QueueShutDown]) w"

subsection \<open>Heartbeat options\<close>

text \<open>\<open>time.Duration\<close> is an \<open>int64\<close> of nanoseconds.\<close>

record Options =
  HeartbeatThreshold :: "64 word"

definition Validate :: "Options \<Rightarrow> error option" where
  "Validate o' =
     (if sint (HeartbeatThreshold o') \<le> 0
      then Some (Errorf ''--workload-cluster-heartbeat-threshold must be >0 (%s)'' None)
      else None)"

subsection \<open>Example inputs\<close>

text \<open>
  A shard without labels and a world whose cache holds it at address 0; declarations that
  take a natural number for the status; a client that accepts every patch; a lister that
  finds the shard under its key, reports a second key as not found and fails on every
  other key.
\<close>

definition ex_shard :: "nat ClusterWorkspaceShard" where
  "ex_shard = \<lparr>Name = ''shard-a'', UID = ''u1'', ResourceVersion = ''7'',
                Labels = None, Status = 0\<rparr>"

definition ex_tn :: "nat tenancyv1alpha1" where
  "ex_tn = \<lparr>RootCluster = ''root'', zeroStatus = 0,
             marshalStatus = (\<lambda>n. JObject [(''generation'', JNumber (int n))]),
             marshalZeroSpec = JObject [(''baseURL'', JString [])]\<rparr>"

definition ex_lister :: "string \<Rightarrow> error + nat" where
  "ex_lister k =
     (if k = ''root|shard-a'' then Inr 0
      else if k = ''root|gone'' then Inl (StatusError ReasonNotFound)
      else Inl (StatusError (ReasonOther ''InternalError'')))"

definition ex_ctl :: Controller where
  "ex_ctl = \<lparr>kcpClient = (\<lambda>_ _ _ _ _. None), clusterWorkspaceShardLister = ex_lister\<rparr>"

definition ex_world :: "nat world" where
  "ex_world = \<lparr>heap = [ex_shard], trace = []\<rparr>"

section \<open>Properties\<close>

subsection \<open>Auxiliary facts\<close>

lemma heap_emit [simp]: "heap (emit es w) = heap w"
  by (simp add: emit_def)

lemma trace_emit [simp]: "trace (emit es w) = trace w @ es"
  by (simp add: emit_def)

declare getDiff.simps [simp del] added.simps [simp del]

lemma CreateMergePatch_Marshal:
  "Marshal tn s = Inr (JObject (members tn s))"
  "CreateMergePatch (JObject a) (JObject b) = Inr (JObject (getDiff a b))"
  by (simp_all add: CreateMergePatch_def Marshal_def)

lemma commit_status_explicit:
  assumes "Status (heap w ! previous) \<noteq> Status (heap w ! obj)"
  shows "commit c tn previous obj w =
      (let patchBytes = JObject (getDiff
             (members tn \<lparr>Name = [], UID = UID (heap w ! previous),
                ResourceVersion = ResourceVersion (heap w ! previous),
                Labels = None, Status = Status (heap w ! previous)\<rparr>)
             (members tn \<lparr>Name = [], UID = UID (heap w ! previous),
                ResourceVersion = ResourceVersion (heap w ! previous),
                Labels = None, Status = Status (heap w ! obj)\<rparr>))
       in ((True, kcpClient c (RootCluster tn) (Name (heap w ! obj)) MergePatchType patchBytes [''status'']),
       emit [ClientPatch (RootCluster tn) (Name (heap w ! obj)) MergePatchType patchBytes [''status'']] w))"
  using assms
  by (simp add: commit_def Let_def CreateMergePatch_Marshal split: option.splits)

lemma commit_labels_explicit:
  assumes "Status (heap w ! previous) = Status (heap w ! obj)"
    and "Labels (heap w ! previous) = None \<or>
         \<not> DeepEqualLabels (Labels (heap w ! previous)) (Labels (heap w ! obj))"
  shows "commit c tn previous obj w =
      (let patchBytes = JObject (getDiff
             (members tn \<lparr>Name = [], UID = UID (heap w ! previous),
                ResourceVersion = ResourceVersion (heap w ! previous),
                Labels = Labels (heap w ! previous), Status = zeroStatus tn\<rparr>)
             (members tn \<lparr>Name = [], UID = UID (heap w ! previous),
                ResourceVersion = ResourceVersion (heap w ! previous),
                Labels = Labels (heap w ! obj), Status = zeroStatus tn\<rparr>))
       in ((True, kcpClient c (RootCluster tn) (Name (heap w ! obj)) MergePatchType patchBytes []),
       emit [ClientPatch (RootCluster tn) (Name (heap w ! obj)) MergePatchType patchBytes []] w))"
  using assms
  by (auto simp add: commit_def Let_def CreateMergePatch_Marshal split: option.splits)

lemma commit_noop:
  assumes "Status (heap w ! previous) = Status (heap w ! obj)"
    and "Labels (heap w ! previous) \<noteq> None"
    and "DeepEqualLabels (Labels (heap w ! previous)) (Labels (heap w ! obj))"
  shows "commit c tn previous obj w = ((False, None), w)"
  using assms by (auto simp add: commit_def Let_def)

lemma heap_commit: "heap (snd (commit c tn previous obj w)) = heap w"
  by (simp add: commit_def Let_def CreateMergePatch_Marshal split: option.splits)

lemma process_found:
  assumes "SplitMetaNamespaceKey k = Inr ([], n)"
    and "clusterWorkspaceShardLister c k = Inr p"
    and "p < length (heap w)"
  shows "process c tn k w =
    commit c tn p (length (heap w)) (w\<lparr>heap := heap w @ [stamp (heap w ! p)]\<rparr>)"
  using assms
  by (simp add: process_def DeepCopy_def reconcile_def nth_append)

lemma map_of_mapStore:
  "map_of (mapStore k v m) k' = (if k' = k then Some v else map_of m k')"
  by (induction m) auto

lemma mapStore_same: "map_of m k = Some v \<Longrightarrow> mapStore k v m = m"
  by (induction m) (auto split: if_splits)

lemma mapStore_not_Nil [simp]: "mapStore k v m \<noteq> []"
  by (cases m) (auto split: if_splits)

lemma DeepEqualLabels_iff:
  "DeepEqualLabels x y \<longleftrightarrow> map_of (entries x) = map_of (entries y)"
proof
  assume eq: "DeepEqualLabels x y"
  show "map_of (entries x) = map_of (entries y)"
  proof
    fix k
    show "map_of (entries x) k = map_of (entries y) k"
    proof (cases "k \<in> fst ` set (entries x) \<union> fst ` set (entries y)")
      case True
      with eq show ?thesis
        by (auto simp: DeepEqualLabels_def list_all_iff)
    next
      case False
      then have "map_of (entries x) k = None" "map_of (entries y) k = None"
        by (simp_all add: map_of_eq_None_iff)
      then show ?thesis by simp
    qed
  qed
next
  assume "map_of (entries x) = map_of (entries y)"
  then show "DeepEqualLabels x y"
    by (simp add: DeepEqualLabels_def list_all_iff)
qed

lemma Labels_stamp:
  "Labels (stamp s) = Some (mapStore shardLabel (Name s) (entries (Labels s)))"
  by (simp add: stamp_def Let_def entries_def)

lemma stamp_fields [simp]:
  "Name (stamp s) = Name s" "UID (stamp s) = UID s"
  "ResourceVersion (stamp s) = ResourceVersion s" "Status (stamp s) = Status s"
  by (simp_all add: stamp_def Let_def)

lemma stamp_idem: "stamp (stamp s) = stamp s"
proof -
  have "map_of (mapStore shardLabel (Name s) (entries (Labels s))) shardLabel = Some (Name s)"
    by (simp add: map_of_mapStore)
  then have "mapStore shardLabel (Name s) (mapStore shardLabel (Name s) (entries (Labels s)))
      = mapStore shardLabel (Name s) (entries (Labels s))"
    by (rule mapStore_same)
  then show ?thesis
    by (simp add: stamp_def Let_def entries_def)
qed

lemma unchanged_labelled:
  assumes "DeepEqualLabels (Labels x) (Labels (stamp x))"
  shows "Labels x \<noteq> None" and "stamp x = x"
proof -
  from assms have eq: "map_of (entries (Labels x)) = map_of (mapStore shardLabel (Name x) (entries (Labels x)))"
    by (simp add: DeepEqualLabels_iff Labels_stamp entries_def)
  then have look: "map_of (entries (Labels x)) shardLabel = Some (Name x)"
    by (simp add: map_of_mapStore)
  then show "Labels x \<noteq> None"
    by (auto simp: entries_def split: option.splits)
  then obtain m where m: "Labels x = Some m" by auto
  with look have "mapStore shardLabel (Name x) m = m"
    by (simp add: entries_def mapStore_same)
  with m show "stamp x = x"
    by (simp add: stamp_def Let_def entries_def)
qed

lemma DeepEqualLabels_refl [simp]: "DeepEqualLabels x x"
  by (simp add: DeepEqualLabels_iff)

lemma label_patch_member:
  assumes "entries l = []"
  shows "member [''metadata'', ''labels'', shardLabel]
     (JObject (getDiff
        (members tn \<lparr>Name = [], UID = u, ResourceVersion = rv, Labels = l, Status = zeroStatus tn\<rparr>)
        (members tn \<lparr>Name = [], UID = u, ResourceVersion = rv,
                      Labels = Some [(shardLabel, n)], Status = zeroStatus tn\<rparr>)))
     = Some (JString n)"
  using assms
  by (simp add: members_def objectMeta_def omitempty_def entries_def getDiff.simps added.simps shardLabel_def)

lemma process_bad_key:
  assumes "SplitMetaNamespaceKey k = Inl e \<or>
           (SplitMetaNamespaceKey k = Inr (ns, n) \<and> ns \<noteq> [])"
  shows "process c tn k w = ((False, None), w)"
  using assms by (auto simp: process_def)

lemma process_lister_error:
  assumes "SplitMetaNamespaceKey k = Inr ([], n)"
    and "clusterWorkspaceShardLister c k = Inl e"
  shows "process c tn k w = (if IsNotFound e then ((False, None), w) else ((True, Some e), w))"
  using assms by (simp add: process_def)

lemma next_error:
  "process c tn k w = ((requeue, Some e), w1) \<Longrightarrow>
   processNextWorkItem c tn (k, False) w =
     (True, emit [HandleError (Errorf ''%q controller failed to sync %q, err: %w'' (Some e)),
                  QueueAddRateLimited k, QueueDone k] w1)"
  by (simp add: processNextWorkItem_def)

lemma next_requeue:
  "process c tn k w = ((True, None), w1) \<Longrightarrow>
   processNextWorkItem c tn (k, False) w =
     (True, emit [QueueAdd k, QueueForget k, QueueDone k] w1)"
  by (simp add: processNextWorkItem_def emit_def)

lemma next_forget:
  "process c tn k w = ((False, None), w1) \<Longrightarrow>
   processNextWorkItem c tn (k, False) w = (True, emit [QueueForget k, QueueDone k] w1)"
  by (simp add: processNextWorkItem_def)

lemma spawn_replicate: "spawn i numThreads = replicate (nat (numThreads - i)) GoWorker"
proof (induction i numThreads rule: spawn.induct)
  case (1 i numThreads)
  show ?case
  proof (cases "i < numThreads")
    case True
    then have "nat (numThreads - i) = Suc (nat (numThreads - (i + 1)))"
      by simp
    with True "1" show ?thesis
      by (subst spawn.simps) simp
  next
    case False
    then show ?thesis
      by (subst spawn.simps) simp
  qed
qed

lemma keys_added: "fst ` set (added a b) \<subseteq> fst ` set b"
proof (induction b)
  case Nil
  show ?case by (simp add: added.simps)
next
  case (Cons kv b)
  obtain k bv where kv: "kv = (k, bv)" by (cases kv)
  have "fst ` set (added a ((k, bv) # b)) \<subseteq> insert k (fst ` set (added a b))"
    by (auto simp: added.simps Let_def split: option.splits json.splits if_splits)
  also have "\<dots> \<subseteq> insert k (fst ` set b)"
    using Cons.IH by (rule insert_mono)
  finally show ?case
    by (simp add: kv)
qed

lemma map_of_added_None: "k \<notin> fst ` set b \<Longrightarrow> map_of (added a b) k = None"
  using keys_added [of a b] by (auto simp: map_of_eq_None_iff)

lemma map_of_deleted_None:
  "map_of b k \<noteq> None \<Longrightarrow>
   map_of (map (\<lambda>(k, _). (k, JNull)) (filter (\<lambda>(k, _). map_of b k = None) a)) k = None"
  by (induction a) auto

lemma objectMeta_diff:
  "map_of (getDiff
      (objectMeta \<lparr>Name = [], UID = u, ResourceVersion = rv, Labels = l1, Status = s1\<rparr>)
      (objectMeta \<lparr>Name = [], UID = u, ResourceVersion = rv, Labels = l2, Status = s2\<rparr>))
     ''uid'' = None \<and>
   map_of (getDiff
      (objectMeta \<lparr>Name = [], UID = u, ResourceVersion = rv, Labels = l1, Status = s1\<rparr>)
      (objectMeta \<lparr>Name = [], UID = u, ResourceVersion = rv, Labels = l2, Status = s2\<rparr>))
     ''resourceVersion'' = None"
  by (simp add: objectMeta_def omitempty_def getDiff.simps added.simps Let_def)

lemma member_under_metadata:
  assumes "map_of (getDiff am bm) x = None"
  shows "member [''metadata'', x]
     (JObject (getDiff [(''metadata'', JObject am), (''spec'', z1), (''status'', t1)]
                       [(''metadata'', JObject bm), (''spec'', z2), (''status'', t2)])) = None"
proof -
  let ?a = "[(''metadata'', JObject am), (''spec'', z1), (''status'', t1)]"
  let ?rest = "[(''spec'', z2), (''status'', t2)]"
  let ?gone = "map (\<lambda>(k, _). (k, JNull))
      (filter (\<lambda>(k, _). map_of ((''metadata'', JObject bm) # ?rest) k = None) ?a)"
  have rest: "map_of (added ?a ?rest) ''metadata'' = None"
    by (rule map_of_added_None) simp
  have gone: "map_of ?gone ''metadata'' = None"
    by (rule map_of_deleted_None) simp
  have head: "added ?a ((''metadata'', JObject bm) # ?rest) =
      (if length (getDiff am bm) > 0 then (''metadata'', JObject (getDiff am bm)) # added ?a ?rest
       else added ?a ?rest)"
    by (subst added.simps) (simp add: Let_def)
  have "map_of (getDiff ?a ((''metadata'', JObject bm) # ?rest)) ''metadata'' =
      (if length (getDiff am bm) > 0 then Some (JObject (getDiff am bm)) else None)"
    unfolding getDiff.simps [of ?a] head map_of_append
    using rest gone by (simp add: map_add_def)
  with assms show ?thesis
    by simp
qed

lemma patch_without_preconditions:
  "member [''metadata'', ''uid'']
     (JObject (getDiff
        (members tn \<lparr>Name = [], UID = u, ResourceVersion = rv, Labels = l1, Status = s1\<rparr>)
        (members tn \<lparr>Name = [], UID = u, ResourceVersion = rv, Labels = l2, Status = s2\<rparr>))) = None \<and>
   member [''metadata'', ''resourceVersion'']
     (JObject (getDiff
        (members tn \<lparr>Name = [], UID = u, ResourceVersion = rv, Labels = l1, Status = s1\<rparr>)
        (members tn \<lparr>Name = [], UID = u, ResourceVersion = rv, Labels = l2, Status = s2\<rparr>))) = None"
  unfolding members_def
  using objectMeta_diff [of u rv l1 s1 l2 s2]
  by (simp only: member_under_metadata)

lemma commit_trace:
  "trace (snd (commit c tn previous obj w)) = trace w \<or>
   (\<exists>nm u rv l1 l2 s1 s2 sub.
      trace (snd (commit c tn previous obj w)) =
        trace w @ [ClientPatch (RootCluster tn) nm MergePatchType
          (JObject (getDiff
             (members tn \<lparr>Name = [], UID = u, ResourceVersion = rv, Labels = l1, Status = s1\<rparr>)
             (members tn \<lparr>Name = [], UID = u, ResourceVersion = rv, Labels = l2, Status = s2\<rparr>)))
          sub])"
proof (cases "Status (heap w ! previous) = Status (heap w ! obj)")
  case False
  then show ?thesis
    by (intro disjI2) (simp add: commit_status_explicit Let_def, blast)
next
  case True
  show ?thesis
  proof (cases "Labels (heap w ! previous) = None \<or>
      \<not> DeepEqualLabels (Labels (heap w ! previous)) (Labels (heap w ! obj))")
    case True
    with \<open>Status (heap w ! previous) = Status (heap w ! obj)\<close> show ?thesis
      by (intro disjI2) (simp add: commit_labels_explicit Let_def, blast)
  next
    case False
    with \<open>Status (heap w ! previous) = Status (heap w ! obj)\<close> show ?thesis
      by (simp add: commit_noop)
  qed
qed

lemma process_trace:
  "trace (snd (process c tn k w)) = trace w \<or>
   (\<exists>nm u rv l1 l2 s1 s2 sub.
      trace (snd (process c tn k w)) =
        trace w @ [ClientPatch (RootCluster tn) nm MergePatchType
          (JObject (getDiff
             (members tn \<lparr>Name = [], UID = u, ResourceVersion = rv, Labels = l1, Status = s1\<rparr>)
             (members tn \<lparr>Name = [], UID = u, ResourceVersion = rv, Labels = l2, Status = s2\<rparr>)))
          sub])"
proof (cases "\<exists>n p. SplitMetaNamespaceKey k = Inr ([], n) \<and> clusterWorkspaceShardLister c k = Inr p")
  case True
  then obtain n p where "SplitMetaNamespaceKey k = Inr ([], n)"
    and "clusterWorkspaceShardLister c k = Inr p" by blast
  then have "process c tn k w =
      commit c tn p (length (heap w))
        (w\<lparr>heap := (heap w @ [heap w ! p])[length (heap w) := stamp ((heap w @ [heap w ! p]) ! length (heap w))]\<rparr>)"
    by (simp add: process_def DeepCopy_def reconcile_def)
  then show ?thesis
    using commit_trace [of c tn p "length (heap w)"
        "w\<lparr>heap := (heap w @ [heap w ! p])[length (heap w) := stamp ((heap w @ [heap w ! p]) ! length (heap w))]\<rparr>"]
    by simp
next
  case False
  then have "process c tn k w = ((False, None), w) \<or> (\<exists>e. process c tn k w = ((True, Some e), w))"
    by (auto simp: process_def split: sum.splits)
  then show ?thesis by auto
qed

text \<open>
  \<open>reconcile\<close> writes labels only. When \<open>process\<close> reaches the comparison, the status
  of the working copy is the status of the original, so the status group never differs
  and \<open>process\<close> sends no patch for the sub-resource \<open>status\<close>.
\<close>

lemma process_status_equal:
  assumes "SplitMetaNamespaceKey k = Inr ([], n)"
    and "clusterWorkspaceShardLister c k = Inr p"
    and "p < length (heap w)"
    and "w2 = w\<lparr>heap := heap w @ [stamp (heap w ! p)]\<rparr>"
  shows "process c tn k w = commit c tn p (length (heap w)) w2 \<and>
         Status (heap w2 ! p) = Status (heap w2 ! length (heap w))"
  using assms by (simp add: process_found nth_append)

lemma process_no_status_patch:
  assumes "SplitMetaNamespaceKey k = Inr ([], n)"
    and "clusterWorkspaceShardLister c k = Inr p"
    and "p < length (heap w)"
  shows "trace (snd (process c tn k w)) = trace w \<or>
         (\<exists>nm patchBytes. trace (snd (process c tn k w)) =
            trace w @ [ClientPatch (RootCluster tn) nm MergePatchType patchBytes []])"
proof -
  let ?w2 = "w\<lparr>heap := heap w @ [stamp (heap w ! p)]\<rparr>"
  let ?obj = "length (heap w)"
  have run: "process c tn k w = commit c tn p ?obj ?w2"
    and same: "Status (heap ?w2 ! p) = Status (heap ?w2 ! ?obj)"
    using process_status_equal [OF assms refl, of tn] by simp_all
  show ?thesis
  proof (cases "Labels (heap ?w2 ! p) = None \<or>
      \<not> DeepEqualLabels (Labels (heap ?w2 ! p)) (Labels (heap ?w2 ! ?obj))")
    case True
    with same have "commit c tn p ?obj ?w2 =
      (let patchBytes = JObject (getDiff
             (members tn \<lparr>Name = [], UID = UID (heap ?w2 ! p),
                ResourceVersion = ResourceVersion (heap ?w2 ! p),
                Labels = Labels (heap ?w2 ! p), Status = zeroStatus tn\<rparr>)
             (members tn \<lparr>Name = [], UID = UID (heap ?w2 ! p),
                ResourceVersion = ResourceVersion (heap ?w2 ! p),
                Labels = Labels (heap ?w2 ! ?obj), Status = zeroStatus tn\<rparr>))
       in ((True, kcpClient c (RootCluster tn) (Name (heap ?w2 ! ?obj)) MergePatchType patchBytes []),
       emit [ClientPatch (RootCluster tn) (Name (heap ?w2 ! ?obj)) MergePatchType patchBytes []] ?w2))"
      by (rule commit_labels_explicit)
    with run show ?thesis
      by (intro disjI2) (simp add: Let_def)
  next
    case False
    with same have "commit c tn p ?obj ?w2 = ((False, None), ?w2)"
      by (intro commit_noop) auto
    with run show ?thesis by simp
  qed
qed

lemma reconcile_keeps_status:
  "Status (heap (snd (reconcile a w)) ! b) = Status (heap w ! b)"
  by (cases "a = b"; cases "a < length (heap w)") (simp_all add: reconcile_def list_update_beyond)

lemmas ex_defs =
  ex_shard_def ex_tn_def ex_ctl_def ex_world_def ex_lister_def

lemmas run_defs =
  process_def commit_def reconcile_def stamp_def DeepCopy_def Marshal_def
  members_def objectMeta_def CreateMergePatch_def SplitMetaNamespaceKey_def emit_def omitempty_def
  entries_def DeepEqualLabels_def shardLabel_def MergePatchType_def processNextWorkItem_def

lemma ex_world_sel [simp]: "heap ex_world = [ex_shard]" "trace ex_world = []"
  by (simp_all add: ex_world_def)

lemma ex_process_labels:
  "process ex_ctl ex_tn ''root|shard-a'' ex_world =
    ((True, None),
     \<lparr>heap = [ex_shard, ex_shard\<lparr>Labels := Some [(''tenancy.kcp.dev/shard'', ''shard-a'')]\<rparr>],
      trace = [ClientPatch ''root'' ''shard-a'' ''application/merge-patch+json''
        (JObject [(''metadata'', JObject [(''labels'',
           JObject [(''tenancy.kcp.dev/shard'', JString ''shard-a'')])])]) []]\<rparr>)"
  by (simp add: ex_defs run_defs getDiff.simps added.simps)

lemma ex_process_other:
  "process ex_ctl ex_tn ''root|other'' ex_world =
    ((True, Some (StatusError (ReasonOther ''InternalError''))), ex_world)"
  by (simp add: ex_defs run_defs)

lemma ex_process_gone:
  "process ex_ctl ex_tn ''root|gone'' ex_world = ((False, None), ex_world)"
  by (simp add: ex_defs run_defs)

subsection \<open>A pass that changes nothing\<close>

text \<open>
  C3. Let the lister find the object \<open>x\<close> under a well-formed key. If \<open>reconcile\<close>
  changes neither the status nor the labels of \<open>x\<close>, so that \<open>x\<close> already carries
  the shard label with its own name, then \<open>process\<close> returns
  \<open>(requeue = false, err = nil)\<close> and adds nothing to the trace: no \<open>Patch\<close> call is
  made. The same holds for an object that is the result of an earlier \<open>reconcile\<close>
  (\<open>x = stamp s\<close>): a second pass produces no commit. The only change to the world is
  the working copy on the heap.
\<close>

theorem process_unchanged_no_patch:
  assumes "SplitMetaNamespaceKey k = Inr ([], n)"
    and "clusterWorkspaceShardLister c k = Inr p"
    and "p < length (heap w)"
    and "heap w ! p = x"
    and "(Status (stamp x) = Status x \<and> DeepEqualLabels (Labels x) (Labels (stamp x)))
         \<or> x = stamp s"
  shows "process c tn k w = ((False, None), w\<lparr>heap := heap w @ [x]\<rparr>) \<and>
         trace (snd (process c tn k w)) = trace w"
proof -
  have de: "DeepEqualLabels (Labels x) (Labels (stamp x))"
    using assms(5) by (auto simp: stamp_idem)
  then have same: "stamp x = x" and some: "Labels x \<noteq> None"
    by (rule unchanged_labelled)+
  let ?w = "w\<lparr>heap := heap w @ [stamp (heap w ! p)]\<rparr>"
  have "process c tn k w = commit c tn p (length (heap w)) ?w"
    using assms(1-3) by (rule process_found)
  also have "\<dots> = ((False, None), ?w)"
    using assms(3,4) some same by (intro commit_noop) (simp_all add: nth_append)
  finally show ?thesis
    using assms(4) same by simp
qed

theorem process_unchanged_no_patch_witness:
  "process ex_ctl ex_tn ''root|shard-a'' (ex_world\<lparr>heap := [stamp ex_shard]\<rparr>) =
     ((False, None), ex_world\<lparr>heap := [stamp ex_shard, stamp ex_shard]\<rparr>) \<and>
   trace (snd (process ex_ctl ex_tn ''root|shard-a'' (ex_world\<lparr>heap := [stamp ex_shard]\<rparr>))) = []"
  using process_unchanged_no_patch [of "''root|shard-a''" "''root|shard-a''" ex_ctl 0
      "ex_world\<lparr>heap := [stamp ex_shard]\<rparr>" "stamp ex_shard" ex_shard ex_tn]
  by (simp add: SplitMetaNamespaceKey_def ex_ctl_def ex_lister_def ex_world_def)


subsection \<open>The object of the lister is not mutated\<close>

text \<open>
  C8. Whatever the key, \<open>process\<close> leaves every object that was on the heap before the
  call as it was; in particular the object the lister returned. When the lister finds an
  object at \<open>p\<close>, \<open>reconcile\<close> is applied to a copy at a fresh address, and the
  comparison and the patch (\<open>commit\<close>) run on the pair of the original at \<open>p\<close>,
  unchanged, and that mutated copy.
\<close>

theorem process_keeps_original:
  "take (length (heap w)) (heap (snd (process c tn k w))) = heap w \<and>
   (SplitMetaNamespaceKey k = Inr ([], n) \<and> clusterWorkspaceShardLister c k = Inr p \<and>
    p < length (heap w) \<longrightarrow>
      heap (snd (process c tn k w)) ! p = heap w ! p \<and>
      process c tn k w =
        commit c tn p (length (heap w)) (w\<lparr>heap := heap w @ [stamp (heap w ! p)]\<rparr>))"
proof -
  have frame: "take (length (heap w)) (heap (snd (process c tn k w))) = heap w"
    by (simp add: process_def DeepCopy_def reconcile_def heap_commit
        split: sum.splits prod.splits option.splits)
  have "heap (snd (process c tn k w)) ! p = heap w ! p" if "p < length (heap w)"
  proof -
    have "take (length (heap w)) (heap (snd (process c tn k w))) ! p = heap w ! p"
      by (simp only: frame)
    with that show ?thesis by simp
  qed
  with frame show ?thesis
    by (auto simp: process_found)
qed

theorem process_keeps_original_witness:
  "take 1 (heap (snd (process ex_ctl ex_tn ''root|shard-a'' ex_world))) = [ex_shard] \<and>
   heap (snd (process ex_ctl ex_tn ''root|shard-a'' ex_world)) ! 0 = ex_shard \<and>
   process ex_ctl ex_tn ''root|shard-a'' ex_world =
     commit ex_ctl ex_tn 0 1 (ex_world\<lparr>heap := [ex_shard, stamp ex_shard]\<rparr>)"
  using process_keeps_original [of ex_world ex_ctl ex_tn "''root|shard-a''" "''root|shard-a''" 0]
  by (simp add: SplitMetaNamespaceKey_def ex_ctl_def ex_lister_def ex_world_def heap_commit)

subsection \<open>A shard without labels\<close>

text \<open>
  C7. Let the lister find, under a well-formed key, an object \<open>x\<close> without labels (the
  label map is nil or empty). Then \<open>reconcile\<close> returns nil, the working copy ends with
  exactly the label \<open>tenancy.kcp.dev/shard\<close> set to the name of \<open>x\<close>, and
  \<open>process\<close> adds exactly one event to the trace: one \<open>Patch\<close> call with no
  sub-resource, whose document carries that label under \<open>metadata.labels\<close>. The error
  \<open>process\<close> returns is the answer of that call.
\<close>

theorem process_stamps_unlabelled:
  assumes "SplitMetaNamespaceKey k = Inr ([], n)"
    and "clusterWorkspaceShardLister c k = Inr p"
    and "p < length (heap w)"
    and "heap w ! p = x"
    and "entries (Labels x) = []"
  shows "\<exists>patchBytes.
     fst (reconcile (length (heap w)) (snd (DeepCopy p w))) = None \<and>
     process c tn k w =
       ((True, kcpClient c (RootCluster tn) (Name x) MergePatchType patchBytes []),
        w\<lparr>heap := heap w @ [x\<lparr>Labels := Some [(shardLabel, Name x)]\<rparr>],
          trace := trace w @ [ClientPatch (RootCluster tn) (Name x) MergePatchType patchBytes []]\<rparr>) \<and>
     member [''metadata'', ''labels'', shardLabel] patchBytes = Some (JString (Name x))"
proof -
  let ?y = "x\<lparr>Labels := Some [(shardLabel, Name x)]\<rparr>"
  let ?w = "w\<lparr>heap := heap w @ [stamp (heap w ! p)]\<rparr>"
  let ?pb = "JObject (getDiff
        (members tn \<lparr>Name = [], UID = UID x, ResourceVersion = ResourceVersion x,
                      Labels = Labels x, Status = zeroStatus tn\<rparr>)
        (members tn \<lparr>Name = [], UID = UID x, ResourceVersion = ResourceVersion x,
                      Labels = Some [(shardLabel, Name x)], Status = zeroStatus tn\<rparr>))"
  have st: "stamp x = ?y"
    using assms(5) by (simp add: stamp_def Let_def entries_def split: option.splits)
  have differ: "Labels x = None \<or> \<not> DeepEqualLabels (Labels x) (Labels ?y)"
    using assms(5) by (auto simp: DeepEqualLabels_def entries_def split: option.splits)
  have "process c tn k w = commit c tn p (length (heap w)) ?w"
    using assms(1-3) by (rule process_found)
  also have "\<dots> =
      ((True, kcpClient c (RootCluster tn) (Name x) MergePatchType ?pb []),
       emit [ClientPatch (RootCluster tn) (Name x) MergePatchType ?pb []] ?w)"
    using assms(3,4) differ st
    by (subst commit_labels_explicit) (simp_all add: nth_append Let_def)
  finally have run: "process c tn k w =
      ((True, kcpClient c (RootCluster tn) (Name x) MergePatchType ?pb []),
       w\<lparr>heap := heap w @ [?y],
         trace := trace w @ [ClientPatch (RootCluster tn) (Name x) MergePatchType ?pb []]\<rparr>)"
    using assms(4) st by (simp add: emit_def)
  have "member [''metadata'', ''labels'', shardLabel] ?pb = Some (JString (Name x))"
    using assms(5) by (rule label_patch_member)
  with run show ?thesis
    by (intro exI [of _ ?pb]) (simp add: reconcile_def)
qed

theorem process_stamps_unlabelled_witness:
  "\<exists>patchBytes.
     fst (reconcile 1 (snd (DeepCopy 0 ex_world))) = None \<and>
     process ex_ctl ex_tn ''root|shard-a'' ex_world =
       ((True, None),
        ex_world\<lparr>heap := [ex_shard, ex_shard\<lparr>Labels := Some [(shardLabel, ''shard-a'')]\<rparr>],
          trace := [ClientPatch ''root'' ''shard-a'' MergePatchType patchBytes []]\<rparr>) \<and>
     member [''metadata'', ''labels'', shardLabel] patchBytes = Some (JString ''shard-a'')"
  using process_stamps_unlabelled [of "''root|shard-a''" "''root|shard-a''" ex_ctl 0
      ex_world ex_shard ex_tn]
  by (simp add: SplitMetaNamespaceKey_def ex_ctl_def ex_lister_def ex_world_def ex_shard_def
      ex_tn_def entries_def)

subsection \<open>What the worker does with the result of process\<close>

text \<open>
  C4. For a key the queue delivered (\<open>quit = false\<close>), \<open>processNextWorkItem\<close>
  returns true, and after \<open>process\<close> it calls, in this order:
  on an error, \<open>HandleError\<close>, \<open>AddRateLimited\<close> and the deferred \<open>Done\<close>, and not
  \<open>Forget\<close>; on \<open>(requeue = true, err = nil)\<close>, \<open>Add\<close>, \<open>Forget\<close> and \<open>Done\<close>;
  on \<open>(requeue = false, err = nil)\<close>, \<open>Forget\<close> and \<open>Done\<close>.
\<close>

theorem processNextWorkItem_dispatch:
  "fst (processNextWorkItem c tn (k, False) w) = True \<and>
   (process c tn k w = ((requeue, Some e), w1) \<longrightarrow>
      trace (snd (processNextWorkItem c tn (k, False) w)) =
        trace w1 @ [HandleError (Errorf ''%q controller failed to sync %q, err: %w'' (Some e)),
                    QueueAddRateLimited k, QueueDone k]) \<and>
   (process c tn k w = ((True, None), w1) \<longrightarrow>
      trace (snd (processNextWorkItem c tn (k, False) w)) =
        trace w1 @ [QueueAdd k, QueueForget k, QueueDone k]) \<and>
   (process c tn k w = ((False, None), w1) \<longrightarrow>
      trace (snd (processNextWorkItem c tn (k, False) w)) =
        trace w1 @ [QueueForget k, QueueDone k])"
proof -
  have "fst (processNextWorkItem c tn (k, False) w) = True"
    by (simp add: processNextWorkItem_def split: prod.splits option.splits)
  then show ?thesis
    by (auto simp: next_error next_requeue next_forget)
qed


theorem processNextWorkItem_dispatch_witness:
  "trace (snd (processNextWorkItem ex_ctl ex_tn (''root|other'', False) ex_world)) =
     [HandleError (Errorf ''%q controller failed to sync %q, err: %w''
        (Some (StatusError (ReasonOther ''InternalError'')))),
      QueueAddRateLimited ''root|other'', QueueDone ''root|other''] \<and>
   trace (snd (processNextWorkItem ex_ctl ex_tn (''root|shard-a'', False) ex_world)) =
     [ClientPatch ''root'' ''shard-a'' ''application/merge-patch+json''
        (JObject [(''metadata'', JObject [(''labels'',
           JObject [(''tenancy.kcp.dev/shard'', JString ''shard-a'')])])]) [],
      QueueAdd ''root|shard-a'', QueueForget ''root|shard-a'', QueueDone ''root|shard-a''] \<and>
   trace (snd (processNextWorkItem ex_ctl ex_tn (''root|gone'', False) ex_world)) =
     [QueueForget ''root|gone'', QueueDone ''root|gone''] \<and>
   fst (processNextWorkItem ex_ctl ex_tn (''root|gone'', False) ex_world) = True"
  using
    processNextWorkItem_dispatch [of ex_ctl ex_tn "''root|other''" ex_world True
      "StatusError (ReasonOther ''InternalError'')" ex_world]
    processNextWorkItem_dispatch [of ex_ctl ex_tn "''root|shard-a''" ex_world True
      "StatusError ReasonConflict"
      "\<lparr>heap = [ex_shard, ex_shard\<lparr>Labels := Some [(''tenancy.kcp.dev/shard'', ''shard-a'')]\<rparr>],
        trace = [ClientPatch ''root'' ''shard-a'' ''application/merge-patch+json''
          (JObject [(''metadata'', JObject [(''labels'',
             JObject [(''tenancy.kcp.dev/shard'', JString ''shard-a'')])])]) []]\<rparr>"]
    processNextWorkItem_dispatch [of ex_ctl ex_tn "''root|gone''" ex_world True
      "StatusError ReasonConflict" ex_world]
  by (simp add: ex_process_other ex_process_labels ex_process_gone)

text \<open>
  C10. Whenever \<open>process\<close> returns without an error, \<open>processNextWorkItem\<close> calls
  \<open>Forget\<close>: after \<open>Add\<close> when a requeue was asked for, alone otherwise.
\<close>

theorem processNextWorkItem_forgets_after_requeue:
  assumes "process c tn k w = ((requeue, None), w1)"
  shows "processNextWorkItem c tn (k, False) w =
     (True, emit ((if requeue then [QueueAdd k] else []) @ [QueueForget k, QueueDone k]) w1)"
  using assms by (simp add: processNextWorkItem_def emit_def)

theorem processNextWorkItem_forgets_after_requeue_witness:
  "processNextWorkItem ex_ctl ex_tn (''root|shard-a'', False) ex_world =
     (True,
      \<lparr>heap = [ex_shard, ex_shard\<lparr>Labels := Some [(''tenancy.kcp.dev/shard'', ''shard-a'')]\<rparr>],
       trace = [ClientPatch ''root'' ''shard-a'' ''application/merge-patch+json''
          (JObject [(''metadata'', JObject [(''labels'',
             JObject [(''tenancy.kcp.dev/shard'', JString ''shard-a'')])])]) [],
          QueueAdd ''root|shard-a'', QueueForget ''root|shard-a'', QueueDone ''root|shard-a'']\<rparr>)"
  using processNextWorkItem_forgets_after_requeue [OF ex_process_labels]
  by (simp add: emit_def)

subsection \<open>Malformed keys and lister errors\<close>

text \<open>
  C5. When the key function fails, \<open>enqueue\<close> reports the error and adds nothing to the
  queue. When a delivered key does not split, or splits with a namespace, \<open>process\<close>
  returns \<open>(requeue = false, err = nil)\<close> without any effect, and
  \<open>processNextWorkItem\<close> calls \<open>Forget\<close> and \<open>Done\<close> only: the key is not added
  again.
\<close>

theorem malformed_key_dropped:
  "(keyFunc obj = Inl e \<longrightarrow> enqueue keyFunc obj w = emit [HandleError e] w) \<and>
   (SplitMetaNamespaceKey k = Inl e' \<or> (SplitMetaNamespaceKey k = Inr (ns, n) \<and> ns \<noteq> []) \<longrightarrow>
      process c tn k w = ((False, None), w) \<and>
      processNextWorkItem c tn (k, False) w = (True, emit [QueueForget k, QueueDone k] w))"
proof -
  have "process c tn k w = ((False, None), w)"
    if "SplitMetaNamespaceKey k = Inl e' \<or> (SplitMetaNamespaceKey k = Inr (ns, n) \<and> ns \<noteq> [])"
    using that by (rule process_bad_key)
  then show ?thesis
    by (auto simp: enqueue_def next_forget)
qed

theorem malformed_key_dropped_witness:
  "enqueue (\<lambda>_. Inl (Errorf ''object has no meta: %v'' None)) () ex_world =
     ex_world\<lparr>trace := [HandleError (Errorf ''object has no meta: %v'' None)]\<rparr> \<and>
   process ex_ctl ex_tn ''a/b/c'' ex_world = ((False, None), ex_world) \<and>
   processNextWorkItem ex_ctl ex_tn (''a/b/c'', False) ex_world =
     (True, ex_world\<lparr>trace := [QueueForget ''a/b/c'', QueueDone ''a/b/c'']\<rparr>) \<and>
   process ex_ctl ex_tn ''ns/shard-a'' ex_world = ((False, None), ex_world) \<and>
   processNextWorkItem ex_ctl ex_tn (''ns/shard-a'', False) ex_world =
     (True, ex_world\<lparr>trace := [QueueForget ''ns/shard-a'', QueueDone ''ns/shard-a'']\<rparr>)"
  using
    malformed_key_dropped [of "\<lambda>_. Inl (Errorf ''object has no meta: %v'' None)" "()"
      "Errorf ''object has no meta: %v'' None" ex_world "''a/b/c''"
      "Errorf ''unexpected key format: %q'' None" "[]" "[]" ex_ctl ex_tn]
    malformed_key_dropped [of "\<lambda>_. Inl (Errorf ''object has no meta: %v'' None)" "()"
      "Errorf ''object has no meta: %v'' None" ex_world "''ns/shard-a''"
      "Errorf ''unexpected key format: %q'' None" "''ns''" "''shard-a''" ex_ctl ex_tn]
  by (simp add: SplitMetaNamespaceKey_def emit_def ex_world_def)

text \<open>
  C6. For a well-formed key on which the lister fails: if the error is a not-found error,
  \<open>process\<close> returns \<open>(requeue = false, err = nil)\<close> and the key is forgotten;
  otherwise \<open>process\<close> returns \<open>(requeue = true, err)\<close> with the lister's error, which
  is reported, and the key is added again rate-limited and not forgotten.
\<close>

theorem process_lister_errors:
  assumes "SplitMetaNamespaceKey k = Inr ([], n)"
    and "clusterWorkspaceShardLister c k = Inl e"
  shows "(IsNotFound e \<longrightarrow>
            process c tn k w = ((False, None), w) \<and>
            processNextWorkItem c tn (k, False) w = (True, emit [QueueForget k, QueueDone k] w)) \<and>
         (\<not> IsNotFound e \<longrightarrow>
            process c tn k w = ((True, Some e), w) \<and>
            processNextWorkItem c tn (k, False) w =
              (True, emit [HandleError (Errorf ''%q controller failed to sync %q, err: %w'' (Some e)),
                           QueueAddRateLimited k, QueueDone k] w))"
  using process_lister_error [OF assms, of tn w]
  by (auto simp: next_forget next_error)

theorem process_lister_errors_witness:
  "process ex_ctl ex_tn ''root|gone'' ex_world = ((False, None), ex_world) \<and>
   processNextWorkItem ex_ctl ex_tn (''root|gone'', False) ex_world =
     (True, ex_world\<lparr>trace := [QueueForget ''root|gone'', QueueDone ''root|gone'']\<rparr>) \<and>
   process ex_ctl ex_tn ''root|other'' ex_world =
     ((True, Some (StatusError (ReasonOther ''InternalError''))), ex_world) \<and>
   processNextWorkItem ex_ctl ex_tn (''root|other'', False) ex_world =
     (True, ex_world\<lparr>trace :=
        [HandleError (Errorf ''%q controller failed to sync %q, err: %w''
           (Some (StatusError (ReasonOther ''InternalError'')))),
         QueueAddRateLimited ''root|other'', QueueDone ''root|other'']\<rparr>)"
  using
    process_lister_errors [of "''root|gone''" "''root|gone''" ex_ctl
      "StatusError ReasonNotFound" ex_tn ex_world]
    process_lister_errors [of "''root|other''" "''root|other''" ex_ctl
      "StatusError (ReasonOther ''InternalError'')" ex_tn ex_world]
  by (simp add: SplitMetaNamespaceKey_def ex_ctl_def ex_lister_def emit_def ex_world_def)

subsection \<open>The patch and its preconditions\<close>

text \<open>
  C1. The claim is that every patch \<open>process\<close> submits carries the UID and the resource
  version of the original under \<open>metadata\<close>. The code marshals the old and the new
  document with the same UID and resource version, and the merge patch leaves out what is
  equal in both: no patch \<open>process\<close> submits has a member \<open>metadata.uid\<close> or
  \<open>metadata.resourceVersion\<close>.
\<close>

theorem process_patch_lacks_preconditions:
  assumes "trace (snd (process c tn k w)) = trace w @ es"
    and "ClientPatch cluster nm patchType patchBytes sub \<in> set es"
  shows "member [''metadata'', ''uid''] patchBytes = None \<and>
         member [''metadata'', ''resourceVersion''] patchBytes = None"
proof -
  from assms have "es \<noteq> []" by auto
  with assms(1) have "trace (snd (process c tn k w)) \<noteq> trace w" by simp
  with process_trace [of c tn k w] obtain nm' u rv l1 l2 s1 s2 sub' where
    "trace (snd (process c tn k w)) =
        trace w @ [ClientPatch (RootCluster tn) nm' MergePatchType
          (JObject (getDiff
             (members tn \<lparr>Name = [], UID = u, ResourceVersion = rv, Labels = l1, Status = s1\<rparr>)
             (members tn \<lparr>Name = [], UID = u, ResourceVersion = rv, Labels = l2, Status = s2\<rparr>)))
          sub']"
    by blast
  with assms have "patchBytes = JObject (getDiff
             (members tn \<lparr>Name = [], UID = u, ResourceVersion = rv, Labels = l1, Status = s1\<rparr>)
             (members tn \<lparr>Name = [], UID = u, ResourceVersion = rv, Labels = l2, Status = s2\<rparr>))"
    by auto
  then show ?thesis
    by (simp only: patch_without_preconditions)
qed

theorem process_patch_lacks_preconditions_witness:
  "trace (snd (process ex_ctl ex_tn ''root|shard-a'' ex_world)) =
     trace ex_world @
     [ClientPatch ''root'' ''shard-a'' ''application/merge-patch+json''
        (JObject [(''metadata'', JObject [(''labels'',
           JObject [(''tenancy.kcp.dev/shard'', JString ''shard-a'')])])]) []] \<and>
   UID (heap ex_world ! 0) = ''u1'' \<and> ResourceVersion (heap ex_world ! 0) = ''7'' \<and>
   member [''metadata'', ''uid'']
     (JObject [(''metadata'', JObject [(''labels'',
           JObject [(''tenancy.kcp.dev/shard'', JString ''shard-a'')])])]) = None \<and>
   member [''metadata'', ''resourceVersion'']
     (JObject [(''metadata'', JObject [(''labels'',
           JObject [(''tenancy.kcp.dev/shard'', JString ''shard-a'')])])]) = None"
  using process_patch_lacks_preconditions [of ex_ctl ex_tn "''root|shard-a''" ex_world
      "[ClientPatch ''root'' ''shard-a'' ''application/merge-patch+json''
        (JObject [(''metadata'', JObject [(''labels'',
           JObject [(''tenancy.kcp.dev/shard'', JString ''shard-a'')])])]) []]"
      "''root''" "''shard-a''" "''application/merge-patch+json''"
      "JObject [(''metadata'', JObject [(''labels'',
           JObject [(''tenancy.kcp.dev/shard'', JString ''shard-a'')])])]" "[]"]
  by (simp add: ex_process_labels ex_shard_def)

subsection \<open>Validation of the tunables\<close>

text \<open>
  C9, as amended. \<open>Options.Validate\<close> returns an error exactly when the heartbeat
  threshold is not positive, and nil otherwise. \<open>Start\<close> does not check the worker
  count: it starts \<open>numThreads\<close> workers when that is positive and none otherwise, and
  then shuts the queue down when the context is done.
\<close>

theorem Validate_threshold_only:
  "(Validate opts = None \<longleftrightarrow> 0 < sint (HeartbeatThreshold opts)) \<and>
   (Validate opts =
      Some (Errorf ''--workload-cluster-heartbeat-threshold must be >0 (%s)'' None)
        \<longleftrightarrow> sint (HeartbeatThreshold opts) \<le> 0) \<and>
   Start c numThreads w = emit (replicate (nat numThreads) GoWorker @ [QueueShutDown]) w"
  by (simp add: Validate_def Start_def spawn_replicate)

theorem Validate_threshold_only_witness:
  "Validate \<lparr>HeartbeatThreshold = 60000000000\<rparr> = None \<and>
   Validate \<lparr>HeartbeatThreshold = 0\<rparr> =
      Some (Errorf ''--workload-cluster-heartbeat-threshold must be >0 (%s)'' None) \<and>
   Validate \<lparr>HeartbeatThreshold = - 1\<rparr> =
      Some (Errorf ''--workload-cluster-heartbeat-threshold must be >0 (%s)'' None) \<and>
   Start ex_ctl 2 ex_world = ex_world\<lparr>trace := [GoWorker, GoWorker, QueueShutDown]\<rparr>"
  using Validate_threshold_only [of "\<lparr>HeartbeatThreshold = 60000000000\<rparr>" ex_ctl 2 ex_world]
    Validate_threshold_only [of "\<lparr>HeartbeatThreshold = 0\<rparr>" ex_ctl 2 ex_world]
    Validate_threshold_only [of "\<lparr>HeartbeatThreshold = - 1\<rparr>" ex_ctl 2 ex_world]
  by (simp add: emit_def numeral_2_eq_2)

text \<open>
  C9, as stated, fails for the worker count: \<open>Start\<close> runs with a count of 0 or -1,
  starts no worker and reports nothing.
\<close>

theorem Start_accepts_nonpositive_count:
  "Start ex_ctl 0 ex_world = ex_world\<lparr>trace := [QueueShutDown]\<rparr> \<and>
   Start ex_ctl (- 1) ex_world = ex_world\<lparr>trace := [QueueShutDown]\<rparr>"
  by (simp add: Start_def emit_def spawn_replicate)

end
